theory Spec2Isabelle
  imports Complex_Main
begin

section \<open>Errors\<close>

text \<open>
  The JavaScript source throws plain \<^verbatim>\<open>Error\<close> objects that differ only in their message.
  Each throw site becomes a constructor; the message is kept where several sites share a kind.
\<close>

datatype error =
    InvalidPhoneFormat string
  | InvalidAmount string
  | AuthenticationError
  | GatewayError string
  | MalformedCallback
  | BindUndefined

section \<open>Gateway client: phone numbers\<close>

definition is_digit :: "char \<Rightarrow> bool" where
  "is_digit c = (c \<in> set ''0123456789'')"

text \<open>\<^verbatim>\<open>phone.replace(/\D/g, '')\<close>\<close>

definition strip_non_digits :: "string \<Rightarrow> string" where
  "strip_non_digits s = filter is_digit s"

text \<open>\<^verbatim>\<open>s.startsWith(p)\<close>\<close>

definition startsWith :: "string \<Rightarrow> string \<Rightarrow> bool" where
  "startsWith s p = (take (length p) s = p)"

text \<open>
  \<^verbatim>\<open>formatPhoneNumber(phone)\<close>: strip, rewrite the prefix, then check the length.
  The two throws are the two \<open>Inl\<close> results.
\<close>

definition formatPhoneNumber :: "string \<Rightarrow> error + string" where
  "formatPhoneNumber phone =
     (let formatted = strip_non_digits phone in
      case (if startsWith formatted ''0'' then Inr (''254'' @ drop 1 formatted)
            else if startsWith formatted ''7'' \<or> startsWith formatted ''1''
              then Inr (''254'' @ formatted)
            else if \<not> startsWith formatted ''254''
              then Inl (InvalidPhoneFormat ''Invalid phone number format'')
            else Inr formatted)
      of Inl e \<Rightarrow> Inl e
       | Inr formatted' \<Rightarrow>
           if length formatted' \<noteq> 12
           then Inl (InvalidPhoneFormat ''Phone number must be 12 digits in 254XXXXXXXXX format'')
           else Inr formatted')"

section \<open>JavaScript values that cross the gateway boundary\<close>

text \<open>
  A JSON scalar delivered by the gateway is a string or a number. Numbers are modelled as
  integers (receipt dates, phone numbers and result codes are integers on the wire); a
  fractional number in a callback is outside this model.
\<close>

datatype jvalue = JStr string | JNum int

text \<open>
  The result of \<^verbatim>\<open>parseFloat\<close>: a number, \<^verbatim>\<open>NaN\<close> (for \<^verbatim>\<open>undefined\<close>), or the parse of a
  string, which is kept unevaluated.
\<close>

datatype jsnum = Num int | NaN | ParseFloat string

definition digit_char :: "nat \<Rightarrow> char" where
  "digit_char d = ''0123456789'' ! d"

fun nat_toString :: "nat \<Rightarrow> string" where
  "nat_toString n =
     (if n < 10 then [digit_char n] else nat_toString (n div 10) @ [digit_char (n mod 10)])"

declare nat_toString.simps [simp del]

text \<open>\<^verbatim>\<open>Number.prototype.toString\<close> on an integer.\<close>

definition int_toString :: "int \<Rightarrow> string" where
  "int_toString i =
     (if i < 0 then CHR ''-'' # nat_toString (nat (- i)) else nat_toString (nat i))"

fun toString :: "jvalue \<Rightarrow> string" where
  "toString (JStr s) = s"
| "toString (JNum n) = int_toString n"

fun parseFloat :: "jvalue option \<Rightarrow> jsnum" where
  "parseFloat None = NaN"
| "parseFloat (Some (JNum n)) = Num n"
| "parseFloat (Some (JStr s)) = ParseFloat s"

text \<open>
  \<^verbatim>\<open>v || fallback\<close> for a possibly undefined scalar \<open>v\<close> bound to a string column:
  \<^verbatim>\<open>undefined\<close>, \<^verbatim>\<open>''\<close> and \<^verbatim>\<open>0\<close> are falsy.
\<close>

fun or_else :: "jvalue option \<Rightarrow> string \<Rightarrow> string" where
  "or_else None fallback = fallback"
| "or_else (Some (JStr s)) fallback = (if s = [] then fallback else s)"
| "or_else (Some (JNum n)) fallback = (if n = 0 then fallback else int_toString n)"

section \<open>Gateway client: MpesaService\<close>

datatype environment = Sandbox | Production

text \<open>The provider's answer to a push request, as far as the server reads it.\<close>

record mpesa_response =
  resp_MerchantRequestID :: "string option"
  resp_CheckoutRequestID :: "string option"
  resp_ResponseCode :: "string option"
  resp_ResponseDescription :: "string option"
  resp_CustomerMessage :: "string option"

text \<open>
  The push request sent in production. The fields built from the configuration and the
  clock alone (short code, password, timestamp, transaction type) are left out.
\<close>

record stk_payload =
  Amount :: int
  PartyA :: string
  PhoneNumber :: string
  CallBackURL :: string
  AccountReference :: string
  TransactionDesc :: string

text \<open>
  Everything \<^verbatim>\<open>MpesaService\<close> reads from outside the process during one call: the token
  cache (a token that is cached and not yet within five minutes of expiry), the replies of
  the provider's two HTTPS endpoints (production), and the draws of \<^verbatim>\<open>Math.random\<close> and
  the clock that make up the sandbox's token, ids and simulated failure.
\<close>

record outside =
  cached_token :: "string option"
  oauth_reply :: "string option"
  stk_reply :: "stk_payload \<Rightarrow> string + mpesa_response"
  sandbox_token :: string
  sandbox_merchant_id :: string
  sandbox_checkout_id :: string
  sandbox_should_fail :: bool
  sandbox_second_error :: bool

text \<open>
  \<^verbatim>\<open>getAccessToken\<close>: a cached token that is still valid is returned; otherwise the sandbox
  makes one up and production asks the provider, failing with
  \<^verbatim>\<open>'Failed to authenticate with M-Pesa API'\<close> when the request fails.
\<close>

definition getAccessToken :: "environment \<Rightarrow> outside \<Rightarrow> error + string" where
  "getAccessToken env w =
     (case cached_token w of
        Some t \<Rightarrow> Inr t
      | None \<Rightarrow>
          if env = Sandbox then Inr (sandbox_token w)
          else (case oauth_reply w of
                  None \<Rightarrow> Inl AuthenticationError
                | Some t \<Rightarrow> Inr t))"

record payment_request =
  phone :: string
  amount :: rat
  accountReference :: string
  transactionDesc :: string
  callbackUrl :: string

text \<open>
  \<^verbatim>\<open>initiatePayment\<close>. The amount check is \<^verbatim>\<open>Math.floor(amount) < 1\<close> and nothing else: the
  service has no upper bound. Every throw inside the \<^verbatim>\<open>try\<close> is rethrown by the
  \<^verbatim>\<open>catch\<close> with the same message, so errors pass through unchanged.
\<close>

definition initiatePayment ::
  "environment \<Rightarrow> outside \<Rightarrow> payment_request \<Rightarrow> error + mpesa_response" where
  "initiatePayment env w paymentRequest =
     (case getAccessToken env w of
        Inl e \<Rightarrow> Inl e
      | Inr accessToken \<Rightarrow>
     (case formatPhoneNumber (phone paymentRequest) of
        Inl e \<Rightarrow> Inl e
      | Inr formattedPhone \<Rightarrow>
     (let amount' = \<lfloor>amount paymentRequest\<rfloor> in
      if amount' < 1 then Inl (InvalidAmount ''Amount must be at least 1 KES'')
      else
        let accountRef =
              (if length (accountReference paymentRequest) > 12
               then take 12 (accountReference paymentRequest)
               else accountReference paymentRequest);
            transactionDesc' =
              (if length (transactionDesc paymentRequest) > 13
               then take 13 (transactionDesc paymentRequest)
               else transactionDesc paymentRequest)
        in
          if env = Sandbox then
            (if sandbox_should_fail w then
               Inl (GatewayError (''M-Pesa API Error: '' @
                      (if sandbox_second_error w then ''Bad Request - Invalid PhoneNumber''
                       else ''Unable to process request'')))
             else
               Inr \<lparr> resp_MerchantRequestID = Some (sandbox_merchant_id w),
                     resp_CheckoutRequestID = Some (sandbox_checkout_id w),
                     resp_ResponseCode = Some ''0'',
                     resp_ResponseDescription = Some ''Success. Request accepted for processing'',
                     resp_CustomerMessage = Some (''STK push sent to '' @ formattedPhone @
                        ''. Please check your phone and enter your M-Pesa PIN.'') \<rparr>)
          else
            (case stk_reply w \<lparr> Amount = amount', PartyA = formattedPhone,
                                  PhoneNumber = formattedPhone,
                                  CallBackURL = callbackUrl paymentRequest,
                                  AccountReference = accountRef,
                                  TransactionDesc = transactionDesc' \<rparr> of
               Inl msg \<Rightarrow> Inl (GatewayError msg)
             | Inr r \<Rightarrow> Inr r))))"

subsection \<open>Status results\<close>

record mpesa_status =
  st_MerchantRequestID :: "string option"
  st_CheckoutRequestID :: "string option"
  st_ResultCode :: string
  st_ResultDesc :: "string option"
  st_Amount :: "jsnum option"
  st_MpesaReceiptNumber :: "jvalue option"
  st_TransactionDate :: "string option"
  st_PhoneNumber :: "string option"
  st_Balance :: "jsnum option"

record result_code =
  code :: int
  desc :: string
  success :: bool
  weight :: nat

definition resultCodes :: "result_code list" where
  "resultCodes =
     [\<lparr>code = 0, desc = ''The service request is processed successfully.'', success = True, weight = 75\<rparr>,
      \<lparr>code = 1032, desc = ''Request canceled by user'', success = False, weight = 8\<rparr>,
      \<lparr>code = 1037, desc = ''DS timeout user cannot be reached'', success = False, weight = 5\<rparr>,
      \<lparr>code = 2001, desc = ''Wrong PIN entered'', success = False, weight = 7\<rparr>,
      \<lparr>code = 1, desc = ''Insufficient funds in the utility account'', success = False, weight = 3\<rparr>,
      \<lparr>code = 17, desc = ''User has cancelled the transaction'', success = False, weight = 2\<rparr>]"

text \<open>The weighted selection loop: subtract weights until the draw is used up.\<close>

fun select_result :: "rat \<Rightarrow> result_code list \<Rightarrow> result_code \<Rightarrow> result_code" where
  "select_result random [] selectedResult = selectedResult"
| "select_result random (result # rest) selectedResult =
     (let random' = random - of_nat (weight result)
      in if random' \<le> 0 then result else select_result random' rest selectedResult)"

text \<open>The random draws of one simulated status check.\<close>

record status_draw =
  draw_random :: rat
  draw_merchant_id :: string
  draw_amount :: int
  draw_receipt :: string
  draw_timestamp :: string
  draw_phone :: string
  draw_balance :: int

definition checkPaymentStatus ::
  "environment \<Rightarrow> status_draw \<Rightarrow> string \<Rightarrow> error + mpesa_status" where
  "checkPaymentStatus env dr checkoutRequestId =
     (if env = Sandbox then
        (let totalWeight = sum_list (map weight resultCodes);
             selectedResult =
               select_result (draw_random dr * of_nat totalWeight) resultCodes (hd resultCodes);
             status = \<lparr> st_MerchantRequestID = Some (draw_merchant_id dr),
                        st_CheckoutRequestID = Some checkoutRequestId,
                        st_ResultCode = int_toString (code selectedResult),
                        st_ResultDesc = Some (desc selectedResult),
                        st_Amount = None, st_MpesaReceiptNumber = None,
                        st_TransactionDate = None, st_PhoneNumber = None,
                        st_Balance = None \<rparr>
         in Inr (if success selectedResult
                 then status \<lparr> st_Amount := Some (Num (draw_amount dr)),
                               st_MpesaReceiptNumber := Some (JStr (draw_receipt dr)),
                               st_TransactionDate := Some (draw_timestamp dr),
                               st_PhoneNumber := Some (draw_phone dr),
                               st_Balance := Some (Num (draw_balance dr)) \<rparr>
                 else status))
      else Inl (GatewayError
        ''Status checking for production should use STK Push Query API or rely on callbacks''))"

subsection \<open>Decoding a callback\<close>

record callback_item =
  Name :: string
  Value :: "jvalue option"

record stk_callback =
  cb_MerchantRequestID :: "string option"
  cb_CheckoutRequestID :: "string option"
  cb_ResultCode :: "jvalue option"
  cb_ResultDesc :: "string option"
  cb_Item :: "callback_item list option"

text \<open>
  One round of the \<^verbatim>\<open>switch\<close> inside \<^verbatim>\<open>metadata.forEach\<close>. \<^verbatim>\<open>item.Value.toString()\<close> throws
  on a missing value; \<^verbatim>\<open>parseFloat\<close> does not.
\<close>

definition switch_item :: "callback_item \<Rightarrow> mpesa_status \<Rightarrow> error + mpesa_status" where
  "switch_item item status =
     (if Name item = ''Amount'' then Inr (status \<lparr> st_Amount := Some (parseFloat (Value item)) \<rparr>)
      else if Name item = ''MpesaReceiptNumber''
        then Inr (status \<lparr> st_MpesaReceiptNumber := Value item \<rparr>)
      else if Name item = ''TransactionDate''
        then (case Value item of
                None \<Rightarrow> Inl MalformedCallback
              | Some v \<Rightarrow> Inr (status \<lparr> st_TransactionDate := Some (toString v) \<rparr>))
      else if Name item = ''PhoneNumber''
        then (case Value item of
                None \<Rightarrow> Inl MalformedCallback
              | Some v \<Rightarrow> Inr (status \<lparr> st_PhoneNumber := Some (toString v) \<rparr>))
      else if Name item = ''Balance'' then Inr (status \<lparr> st_Balance := Some (parseFloat (Value item)) \<rparr>)
      else Inr status)"

fun forEach_item :: "callback_item list \<Rightarrow> mpesa_status \<Rightarrow> error + mpesa_status" where
  "forEach_item [] status = Inr status"
| "forEach_item (item # items) status =
     (case switch_item item status of
        Inl e \<Rightarrow> Inl e
      | Inr status' \<Rightarrow> forEach_item items status')"

text \<open>
  \<^verbatim>\<open>processCallback\<close>. The argument is \<^verbatim>\<open>callbackData.Body?.stkCallback\<close>, \<open>None\<close> when
  any part of that path is missing. Every error inside is rethrown as
  \<^verbatim>\<open>'Failed to process M-Pesa callback'\<close>.
\<close>

definition processCallback :: "stk_callback option \<Rightarrow> error + mpesa_status" where
  "processCallback body =
     (case body of
        None \<Rightarrow> Inl MalformedCallback
      | Some stkCallback \<Rightarrow>
         (case cb_ResultCode stkCallback of
            None \<Rightarrow> Inl MalformedCallback
          | Some rc \<Rightarrow>
             (let status = \<lparr> st_MerchantRequestID = cb_MerchantRequestID stkCallback,
                             st_CheckoutRequestID = cb_CheckoutRequestID stkCallback,
                             st_ResultCode = toString rc,
                             st_ResultDesc = cb_ResultDesc stkCallback,
                             st_Amount = None, st_MpesaReceiptNumber = None,
                             st_TransactionDate = None, st_PhoneNumber = None,
                             st_Balance = None \<rparr>
              in case (if rc = JNum 0 then cb_Item stkCallback else None) of
                   None \<Rightarrow> Inr status
                 | Some metadata \<Rightarrow> forEach_item metadata status)))"

section \<open>Payment record store\<close>

datatype payment_status = Pending | Completed | Failed | Refunded

text \<open>
  The \<^verbatim>\<open>notes\<close> column holds either a plain string or the \<^verbatim>\<open>JSON.stringify\<close> of an object.
  The object is kept as its list of fields; \<^verbatim>\<open>JSON.stringify\<close> leaves out a field whose
  value is \<^verbatim>\<open>undefined\<close>.
\<close>

datatype json = JsonStr string | JsonNum jsnum

datatype notes_blob = Text string | Json "(string \<times> json) list"

definition field :: "string \<Rightarrow> json option \<Rightarrow> (string \<times> json) list" where
  "field k v = (case v of None \<Rightarrow> [] | Some j \<Rightarrow> [(k, j)])"

definition stringify :: "(string \<times> json) list list \<Rightarrow> notes_blob" where
  "stringify fs = Json (concat fs)"

fun json_of_jvalue :: "jvalue \<Rightarrow> json" where
  "json_of_jvalue (JStr s) = JsonStr s"
| "json_of_jvalue (JNum n) = JsonNum (Num n)"

text \<open>
  A row of \<^verbatim>\<open>payments\<close>; the date columns are left out. \<^verbatim>\<open>reference_number\<close> and
  \<^verbatim>\<open>notes\<close> (here \<open>pay_notes\<close>) are nullable.
\<close>

record payment =
  pay_id :: nat
  tenant_id :: nat
  property_id :: nat
  pay_amount :: rat
  payment_method :: string
  payment_status :: payment_status
  reference_number :: "string option"
  pay_notes :: "notes_blob option"

record tenant =
  tn_id :: nat
  tn_user_id :: nat
  tn_property_id :: nat

text \<open>
  The database behind the single shared connection: the two tables the payment flow
  touches, the auto-increment counter of \<^verbatim>\<open>payments\<close>, and the rows to restore on
  \<^verbatim>\<open>rollback\<close> while a transaction is open. Statements are assumed to reach the server;
  the one statement-level failure modelled is the driver's refusal of an \<^verbatim>\<open>undefined\<close> bind
  parameter (mysql2 throws before sending), written \<open>BindUndefined\<close>.
\<close>

record db =
  payments :: "payment list"
  tenants :: "tenant list"
  next_insert_id :: nat
  tx_snapshot :: "payment list option"

text \<open>\<^verbatim>\<open>UPDATE payments SET ... WHERE id = ?\<close>: every row with that id gets the new columns.\<close>

definition update_where_id :: "nat \<Rightarrow> (payment \<Rightarrow> payment) \<Rightarrow> db \<Rightarrow> db" where
  "update_where_id i f d =
     d \<lparr> payments := map (\<lambda>r. if pay_id r = i then f r else r) (payments d) \<rparr>"

text \<open>
  The three \<^verbatim>\<open>UPDATE\<close> statements of the payment flow, as functions of their bind
  parameters. None of them has a condition on \<^verbatim>\<open>payment_status\<close>.
  \<^item> \<^verbatim>\<open>UPDATE payments SET payment_status = 'completed', reference_number = ?, notes = ? WHERE id = ?\<close>
  \<^item> \<^verbatim>\<open>UPDATE payments SET payment_status = ?, notes = ? WHERE id = ?\<close>
  \<^item> \<^verbatim>\<open>UPDATE payments SET reference_number = ?, notes = ? WHERE id = ?\<close>
\<close>

definition update_completed :: "string \<Rightarrow> notes_blob \<Rightarrow> nat \<Rightarrow> db \<Rightarrow> db" where
  "update_completed ref n i d =
     update_where_id i
       (\<lambda>r. r \<lparr> payment_status := Completed, reference_number := Some ref, pay_notes := Some n \<rparr>) d"

definition update_status_notes :: "payment_status \<Rightarrow> notes_blob \<Rightarrow> nat \<Rightarrow> db \<Rightarrow> db" where
  "update_status_notes s n i d =
     update_where_id i (\<lambda>r. r \<lparr> payment_status := s, pay_notes := Some n \<rparr>) d"

definition update_reference_notes :: "string \<Rightarrow> notes_blob \<Rightarrow> nat \<Rightarrow> db \<Rightarrow> db" where
  "update_reference_notes ref n i d =
     update_where_id i (\<lambda>r. r \<lparr> reference_number := Some ref, pay_notes := Some n \<rparr>) d"

text \<open>\<^verbatim>\<open>SELECT * FROM payments WHERE reference_number = ?\<close>\<close>

definition select_by_reference :: "string \<Rightarrow> db \<Rightarrow> payment list" where
  "select_by_reference ref d = filter (\<lambda>r. reference_number r = Some ref) (payments d)"

definition beginTransaction :: "db \<Rightarrow> db" where
  "beginTransaction d = d \<lparr> tx_snapshot := Some (payments d) \<rparr>"

definition commit :: "db \<Rightarrow> db" where
  "commit d = d \<lparr> tx_snapshot := None \<rparr>"

definition rollback :: "db \<Rightarrow> db" where
  "rollback d =
     (case tx_snapshot d of
        None \<Rightarrow> d
      | Some rows \<Rightarrow> d \<lparr> payments := rows, tx_snapshot := None \<rparr>)"

section \<open>Resolving a payment\<close>

text \<open>The template literal \<^verbatim>\<open>`Error ${ResultCode}: ${ResultDesc}`\<close>.\<close>

definition error_note :: "mpesa_status \<Rightarrow> notes_blob" where
  "error_note st =
     Text (''Error '' @ st_ResultCode st @ '': '' @
           (case st_ResultDesc st of None \<Rightarrow> ''undefined'' | Some d \<Rightarrow> d))"

subsection \<open>The poll path\<close>

text \<open>
  \<^verbatim>\<open>checkAndUpdatePaymentStatus(checkoutRequestId, paymentId)\<close>: ask the gateway client, then
  write the outcome into the row with that id. The reference number written on success is
  \<^verbatim>\<open>mpesaStatus.MpesaReceiptNumber || checkoutRequestId\<close>.
\<close>

definition poll_write :: "mpesa_status \<Rightarrow> string \<Rightarrow> nat \<Rightarrow> db \<Rightarrow> db" where
  "poll_write mpesaStatus checkoutRequestId paymentId d =
     (if st_ResultCode mpesaStatus = ''0'' then
        update_completed
          (or_else (st_MpesaReceiptNumber mpesaStatus) checkoutRequestId)
          (stringify
             [field ''mpesaReceiptNumber''
                (map_option json_of_jvalue (st_MpesaReceiptNumber mpesaStatus)),
              field ''transactionDate'' (map_option JsonStr (st_TransactionDate mpesaStatus)),
              field ''phoneNumber'' (map_option JsonStr (st_PhoneNumber mpesaStatus)),
              field ''checkoutRequestId'' (Some (JsonStr checkoutRequestId))])
          paymentId d
      else update_status_notes Failed (error_note mpesaStatus) paymentId d)"

definition checkAndUpdatePaymentStatus ::
  "environment \<Rightarrow> status_draw \<Rightarrow> string \<Rightarrow> nat \<Rightarrow> db \<Rightarrow> db \<times> (error + mpesa_status)" where
  "checkAndUpdatePaymentStatus env dr checkoutRequestId paymentId d =
     (case checkPaymentStatus env dr checkoutRequestId of
        Inl e \<Rightarrow> (d, Inl e)
      | Inr mpesaStatus \<Rightarrow>
          (poll_write mpesaStatus checkoutRequestId paymentId d, Inr mpesaStatus))"

subsection \<open>The callback path\<close>

record acknowledgement =
  ack_ResultCode :: int
  ack_ResultDesc :: string

definition accepted :: acknowledgement where
  "accepted = \<lparr> ack_ResultCode = 0, ack_ResultDesc = ''Accepted'' \<rparr>"

text \<open>
  A request to \<^verbatim>\<open>POST /api/payments/mpesa/callback\<close>: the route has no middleware, so the
  \<^verbatim>\<open>Authorization\<close> header is carried along and never read.
\<close>

record callback_request =
  cb_authorization :: "string option"
  cb_body :: "stk_callback option"

text \<open>
  The body of the handler's \<^verbatim>\<open>try\<close>: decode, look the payment up by
  \<^verbatim>\<open>reference_number\<close>, write the outcome into the first row found. A throw leaves the
  database as it was, since the only write is the last statement.
\<close>

definition callback_write :: "mpesa_status \<Rightarrow> payment \<Rightarrow> db \<Rightarrow> error + db" where
  "callback_write paymentStatus payment' d =
     (if st_ResultCode paymentStatus = ''0'' then
        (case st_MpesaReceiptNumber paymentStatus of
           None \<Rightarrow> Inl BindUndefined
         | Some receipt \<Rightarrow>
             Inr (update_completed (toString receipt)
               (stringify
                  [field ''mpesaReceiptNumber'' (Some (json_of_jvalue receipt)),
                   field ''transactionDate''
                     (map_option JsonStr (st_TransactionDate paymentStatus)),
                   field ''phoneNumber'' (map_option JsonStr (st_PhoneNumber paymentStatus)),
                   field ''balance'' (map_option JsonNum (st_Balance paymentStatus)),
                   field ''merchantRequestId''
                     (map_option JsonStr (st_MerchantRequestID paymentStatus))])
               (pay_id payment') d))
      else Inr (update_status_notes Failed (error_note paymentStatus) (pay_id payment') d))"

definition callback_try :: "stk_callback option \<Rightarrow> db \<Rightarrow> error + db" where
  "callback_try body d =
     (case processCallback body of
        Inl e \<Rightarrow> Inl e
      | Inr paymentStatus \<Rightarrow>
         (case st_CheckoutRequestID paymentStatus of
            None \<Rightarrow> Inl BindUndefined
          | Some ref \<Rightarrow>
             (case select_by_reference ref d of
                [] \<Rightarrow> Inr d
              | payment' # _ \<Rightarrow> callback_write paymentStatus payment' d)))"

text \<open>The handler: both the \<^verbatim>\<open>try\<close> and the \<^verbatim>\<open>catch\<close> end in the same \<^verbatim>\<open>res.json\<close>.\<close>

definition mpesa_callback :: "callback_request \<Rightarrow> db \<Rightarrow> db \<times> acknowledgement" where
  "mpesa_callback req d =
     (case callback_try (cb_body req) d of
        Inr d' \<Rightarrow> (d', \<lparr> ack_ResultCode = 0, ack_ResultDesc = ''Accepted'' \<rparr>)
      | Inl e \<Rightarrow> (d, \<lparr> ack_ResultCode = 0, ack_ResultDesc = ''Accepted'' \<rparr>))"

section \<open>Initiating a payment\<close>

text \<open>
  What the server reads from its process environment: the gateway mode, the outcome of
  \<^verbatim>\<open>jwt.verify\<close> on a token (the decoded user id, or \<open>None\<close> when verification throws),
  the callback URL handed to the gateway, and the clock.
\<close>

record server_env =
  mpesa_environment :: environment
  jwt_verify :: "string \<Rightarrow> nat option"
  callback_url :: string
  now_iso :: string

text \<open>\<^verbatim>\<open>s.split(c)\<close> for a one-character separator.\<close>

fun split_on :: "char \<Rightarrow> string \<Rightarrow> string list" where
  "split_on c [] = [[]]"
| "split_on c (x # xs) =
     (if x = c then [] # split_on c xs
      else (case split_on c xs of
              [] \<Rightarrow> [[x]]
            | p # ps \<Rightarrow> (x # p) # ps))"

datatype initiate_failure =
    Unauthorized
  | Forbidden
  | BadRequest string
  | ServerError string

text \<open>
  \<^verbatim>\<open>authenticateToken\<close>: 401 without a token, 403 when the token does not verify, otherwise
  the request goes on with \<^verbatim>\<open>req.user\<close> set.
\<close>

definition authenticateToken :: "server_env \<Rightarrow> string option \<Rightarrow> initiate_failure + nat" where
  "authenticateToken env authHeader =
     (let token = (case authHeader of
                     None \<Rightarrow> None
                   | Some h \<Rightarrow>
                       if h = [] then None
                       else (case split_on CHR '' '' h of
                               _ # t # _ \<Rightarrow> Some t
                             | _ \<Rightarrow> None))
      in case token of
           None \<Rightarrow> Inl Unauthorized
         | Some t \<Rightarrow>
             if t = [] then Inl Unauthorized
             else (case jwt_verify env t of
                     None \<Rightarrow> Inl Forbidden
                   | Some user_id \<Rightarrow> Inr user_id))"

text \<open>
  The \<^verbatim>\<open>amount\<close> of the request body: absent (\<^verbatim>\<open>undefined\<close>, \<^verbatim>\<open>null\<close> or the empty string), a
  number, or a non-empty string, which \<^verbatim>\<open>Number\<close> reads as a number or as \<^verbatim>\<open>NaN\<close>
  (\<open>None\<close>). Numbers are rationals: every finite double is one, and \<^verbatim>\<open>Math.floor\<close> and
  the comparisons below are exact on doubles.
\<close>

datatype js_amount = AmountAbsent | AmountNumber rat | AmountString "rat option"

fun amount_falsy :: "js_amount \<Rightarrow> bool" where
  "amount_falsy AmountAbsent = True"
| "amount_falsy (AmountNumber a) = (a = 0)"
| "amount_falsy (AmountString _) = False"

text \<open>\<^verbatim>\<open>Math.floor(Number(amount))\<close>, \<open>None\<close> for \<^verbatim>\<open>NaN\<close>.\<close>

fun wholeAmount_of :: "js_amount \<Rightarrow> int option" where
  "wholeAmount_of AmountAbsent = None"
| "wholeAmount_of (AmountNumber a) = Some \<lfloor>a\<rfloor>"
| "wholeAmount_of (AmountString None) = None"
| "wholeAmount_of (AmountString (Some a)) = Some \<lfloor>a\<rfloor>"

text \<open>
  The parts of a request to the initiate route that the handler reads. An absent phone and
  an empty one are both falsy and both written \<open>[]\<close>.
\<close>

record initiate_request =
  authorization :: "string option"
  body_amount :: js_amount
  body_phone :: string
  body_description :: "string option"

text \<open>
  The 201 response, together with the deferred status check armed by \<^verbatim>\<open>setTimeout\<close> in
  sandbox mode (its arguments).
\<close>

record created =
  paymentId :: nat
  merchantRequestId :: "string option"
  checkoutRequestId :: string
  responseCode :: "string option"
  customerMessage :: string
  created_amount :: int
  created_phone :: string
  deferred_check :: "(string \<times> nat) option"

definition message_of :: "error \<Rightarrow> string" where
  "message_of e =
     (case e of
        InvalidPhoneFormat m \<Rightarrow> m
      | InvalidAmount m \<Rightarrow> m
      | AuthenticationError \<Rightarrow> ''Failed to authenticate with M-Pesa API''
      | GatewayError m \<Rightarrow> m
      | MalformedCallback \<Rightarrow> ''Failed to process M-Pesa callback''
      | BindUndefined \<Rightarrow>
          ''Bind parameters must not contain undefined. To pass SQL NULL specify JS null'')"

text \<open>\<^verbatim>\<open>s.includes(p)\<close>\<close>

fun includes_str :: "string \<Rightarrow> string \<Rightarrow> bool" where
  "includes_str [] p = (p = [])"
| "includes_str (x # xs) p = (startsWith (x # xs) p \<or> includes_str xs p)"

definition userMessage :: "error \<Rightarrow> string" where
  "userMessage e =
     (let m = message_of e in
      if includes_str m ''Invalid phone number''
        then ''Please enter a valid Kenyan phone number (e.g., 0712345678)''
      else if includes_str m ''Invalid Access Token''
        then ''Payment service temporarily unavailable. Please try again in a few moments.''
      else if includes_str m ''Bad Request - Invalid PhoneNumber''
        then ''The phone number you entered is not valid for M-Pesa. Please check and try again.''
      else if includes_str m ''Unable to process request''
        then ''M-Pesa service is temporarily unavailable. Please try again later.''
      else ''Failed to initiate payment. Please try again.'')"

text \<open>\<^verbatim>\<open>formattedPhone.substring(0, 6) + '***'\<close>\<close>

definition masked :: "string \<Rightarrow> string" where
  "masked formattedPhone = take 6 formattedPhone @ ''***''"

text \<open>
  The inner \<^verbatim>\<open>try\<close> of the handler, entered after \<^verbatim>\<open>beginTransaction\<close>: insert the
  pending row, call the gateway client, annotate the row, commit. It returns the database
  as it stands when the block is left, by its end or by a throw.
\<close>

definition initiate_try ::
  "server_env \<Rightarrow> outside \<Rightarrow> tenant \<Rightarrow> int \<Rightarrow> string \<Rightarrow> string option \<Rightarrow> db
     \<Rightarrow> db \<times> (error + created)" where
  "initiate_try env w tenant0 wholeAmount formattedPhone description d =
     (let paymentId' = next_insert_id d;
          d1 = d \<lparr> payments := payments d @
                     [\<lparr> pay_id = paymentId', tenant_id = tn_id tenant0,
                        property_id = tn_property_id tenant0,
                        pay_amount = of_int wholeAmount, payment_method = ''mpesa'',
                        payment_status = Pending, reference_number = None,
                        pay_notes = Some (Text (''STK Push to '' @ masked formattedPhone)) \<rparr>],
                   next_insert_id := Suc paymentId' \<rparr>;
          paymentRequest =
            \<lparr> phone = formattedPhone, amount = of_int wholeAmount,
              accountReference = ''RENT'' @ nat_toString paymentId',
              transactionDesc =
                (case description of
                   None \<Rightarrow> ''Rent'' @ nat_toString paymentId'
                 | Some ds \<Rightarrow> if ds = [] then ''Rent'' @ nat_toString paymentId' else take 13 ds),
              callbackUrl = callback_url env \<rparr>
      in case initiatePayment (mpesa_environment env) w paymentRequest of
           Inl e \<Rightarrow> (d1, Inl e)
         | Inr mpesaResponse \<Rightarrow>
            (case resp_CheckoutRequestID mpesaResponse of
               None \<Rightarrow> (d1, Inl BindUndefined)
             | Some cid \<Rightarrow>
                (let d2 = update_reference_notes cid
                       (stringify
                          [field ''merchantRequestId''
                             (map_option JsonStr (resp_MerchantRequestID mpesaResponse)),
                           field ''checkoutRequestId'' (Some (JsonStr cid)),
                           field ''responseCode''
                             (map_option JsonStr (resp_ResponseCode mpesaResponse)),
                           field ''phoneNumber'' (Some (JsonStr (masked formattedPhone))),
                           field ''initiatedAt'' (Some (JsonStr (now_iso env)))])
                       paymentId' d1;
                     d3 = commit d2
                 in (d3, Inr \<lparr> paymentId = paymentId',
                               merchantRequestId = resp_MerchantRequestID mpesaResponse,
                               checkoutRequestId = cid,
                               responseCode = resp_ResponseCode mpesaResponse,
                               customerMessage = ''STK push sent to '' @ masked formattedPhone @
                                 ''. Please check your phone and enter your M-Pesa PIN.'',
                               created_amount = wholeAmount,
                               created_phone = masked formattedPhone,
                               deferred_check =
                                 (if mpesa_environment env = Sandbox then Some (cid, paymentId')
                                  else None) \<rparr>))))"

text \<open>
  \<^verbatim>\<open>POST /api/payments/mpesa/initiate\<close>: authentication, validation, tenant lookup, then
  the transaction; a throw inside it is answered by \<^verbatim>\<open>rollback\<close> and a 500.
\<close>

definition mpesa_initiate ::
  "server_env \<Rightarrow> outside \<Rightarrow> initiate_request \<Rightarrow> db \<Rightarrow> db \<times> (initiate_failure + created)" where
  "mpesa_initiate env w req d =
     (case authenticateToken env (authorization req) of
        Inl denied \<Rightarrow> (d, Inl denied)
      | Inr user_id \<Rightarrow>
         if amount_falsy (body_amount req) \<or> body_phone req = []
         then (d, Inl (BadRequest ''Amount and phone number are required''))
         else
          (case wholeAmount_of (body_amount req) of
             None \<Rightarrow> (d, Inl (BadRequest ''Amount must be between KES 1 and KES 500,000''))
           | Some wholeAmount \<Rightarrow>
              if wholeAmount < 1 \<or> wholeAmount > 500000
              then (d, Inl (BadRequest ''Amount must be between KES 1 and KES 500,000''))
              else
               (case formatPhoneNumber (body_phone req) of
                  Inl phoneError \<Rightarrow>
                    (d, Inl (BadRequest (''Invalid phone number: '' @ message_of phoneError @
                       ''. Please use format: 0712345678, 254712345678, or 712345678'')))
                | Inr formattedPhone \<Rightarrow>
                   (case filter (\<lambda>t. tn_user_id t = user_id) (tenants d) of
                      [] \<Rightarrow>
                        (d, Inl (BadRequest
                           ''No active tenancy found. Please contact your landlord.''))
                    | tenant0 # _ \<Rightarrow>
                       (case initiate_try env w tenant0 wholeAmount formattedPhone
                               (body_description req) (beginTransaction d) of
                          (d', Inr data) \<Rightarrow> (d', Inr data)
                        | (d', Inl e) \<Rightarrow> (rollback d', Inl (ServerError (userMessage e))))))))"

section \<open>The normalised phone number as the specification words it\<close>

text \<open>
  The specification describes normalisation without the code's list of prefixes: input
  comes with or without the country code and with or without a leading trunk digit, and
  the result is the country code followed by the subscriber number. \<open>spec_normalized\<close>
  follows these words: keep a number that has the country code, otherwise drop a leading
  trunk digit 0 and put the country code in front.
\<close>

definition spec_normalized :: "string \<Rightarrow> string" where
  "spec_normalized raw =
     (let d = strip_non_digits raw
      in if startsWith d ''254'' then d
         else if startsWith d ''0'' then ''254'' @ drop 1 d
         else ''254'' @ d)"

section \<open>Concrete scenarios\<close>

text \<open>One tenant (user 7) with one pending M-Pesa payment awaiting its callback.\<close>

definition example_payment :: payment where
  "example_payment =
     \<lparr> pay_id = 1, tenant_id = 1, property_id = 1, pay_amount = 500,
       payment_method = ''mpesa'', payment_status = Pending,
       reference_number = Some ''ws_CO_1'', pay_notes = None \<rparr>"

definition example_db :: db where
  "example_db =
     \<lparr> payments = [example_payment],
       tenants = [\<lparr> tn_id = 1, tn_user_id = 7, tn_property_id = 1 \<rparr>],
       next_insert_id = 2, tx_snapshot = None \<rparr>"

definition success_callback :: stk_callback where
  "success_callback =
     \<lparr> cb_MerchantRequestID = Some ''29115-34620561-1'',
       cb_CheckoutRequestID = Some ''ws_CO_1'',
       cb_ResultCode = Some (JNum 0),
       cb_ResultDesc = Some ''The service request is processed successfully.'',
       cb_Item = Some [\<lparr> Name = ''Amount'', Value = Some (JNum 500) \<rparr>,
                       \<lparr> Name = ''MpesaReceiptNumber'', Value = Some (JStr ''ABC123'') \<rparr>] \<rparr>"

definition failure_callback :: stk_callback where
  "failure_callback =
     \<lparr> cb_MerchantRequestID = Some ''29115-34620561-1'',
       cb_CheckoutRequestID = Some ''ws_CO_1'',
       cb_ResultCode = Some (JNum 1032),
       cb_ResultDesc = Some ''Request canceled by user'',
       cb_Item = None \<rparr>"

definition success_request :: callback_request where
  "success_request = \<lparr> cb_authorization = None, cb_body = Some success_callback \<rparr>"

definition failure_request :: callback_request where
  "failure_request = \<lparr> cb_authorization = None, cb_body = Some failure_callback \<rparr>"


definition unknown_request :: callback_request where
  "unknown_request =
     \<lparr> cb_authorization = None,
       cb_body = Some (success_callback \<lparr> cb_CheckoutRequestID := Some ''ws_CO_unknown'' \<rparr>) \<rparr>"


definition example_env :: server_env where
  "example_env =
     \<lparr> mpesa_environment = Sandbox,
       jwt_verify = (\<lambda>t. if t = ''good'' then Some 7 else None),
       callback_url = ''https://example.org/api/payments/mpesa/callback'',
       now_iso = ''2025-01-01T12:00:00.000Z'' \<rparr>"

definition example_outside :: outside where
  "example_outside =
     \<lparr> cached_token = None, oauth_reply = None, stk_reply = (\<lambda>_. Inl ''unreachable''),
       sandbox_token = ''sandbox_token_1'', sandbox_merchant_id = ''10000-10000000-1'',
       sandbox_checkout_id = ''ws_CO_2'', sandbox_should_fail = False,
       sandbox_second_error = False \<rparr>"


definition example_initiate :: "rat \<Rightarrow> initiate_request" where
  "example_initiate a =
     \<lparr> authorization = Some ''Bearer good'', body_amount = AmountNumber a,
       body_phone = ''0712345678'', body_description = Some ''Rent'' \<rparr>"

section \<open>Auxiliary facts\<close>

subsection \<open>Decoding keeps the checkout request id\<close>

lemma payments_update_where_id:
  "payments (update_where_id i f d) = map (\<lambda>r. if pay_id r = i then f r else r) (payments d)"
  by (simp add: update_where_id_def)

lemma switch_item_CheckoutRequestID:
  "switch_item item st = Inr st' \<Longrightarrow> st_CheckoutRequestID st' = st_CheckoutRequestID st"
  by (auto simp: switch_item_def split: if_splits option.splits)

lemma forEach_item_CheckoutRequestID:
  "forEach_item items st = Inr st' \<Longrightarrow> st_CheckoutRequestID st' = st_CheckoutRequestID st"
proof (induction items arbitrary: st)
  case Nil
  then show ?case by simp
next
  case (Cons item items)
  then show ?case
    by (auto split: sum.splits dest: switch_item_CheckoutRequestID)
qed

lemma processCallback_CheckoutRequestID:
  "processCallback (Some cb) = Inr st \<Longrightarrow> st_CheckoutRequestID st = cb_CheckoutRequestID cb"
  by (auto simp: processCallback_def Let_def split: option.splits if_splits
      dest: forEach_item_CheckoutRequestID)

subsection \<open>Writing twice\<close>

lemma poll_write_twice:
  "poll_write st cid pid (poll_write st cid pid d) = poll_write st cid pid d"
  by (simp add: poll_write_def update_completed_def update_status_notes_def update_where_id_def comp_def)

lemma filter_map_other:
  "(\<And>r. pay_id (f r) = pay_id r) \<Longrightarrow> q \<noteq> i \<Longrightarrow>
   filter (\<lambda>r. pay_id r = i) (map (\<lambda>r. if pay_id r = q then f r else r) xs)
     = filter (\<lambda>r. pay_id r = i) xs"
  by (induction xs) auto

lemma callback_write_shape:
  assumes "callback_write st p d = Inr d1"
  obtains f where "\<And>q d'. callback_write st q d' = Inr (update_where_id (pay_id q) f d')"
    and "\<And>r. pay_id (f r) = pay_id r" and "\<And>r. f (f r) = f r"
proof (cases "st_ResultCode st = ''0''")
  case True
  with assms obtain receipt where rc: "st_MpesaReceiptNumber st = Some receipt"
    by (auto simp: callback_write_def split: option.splits)
  let ?n = "stringify
                  [field ''mpesaReceiptNumber'' (Some (json_of_jvalue receipt)),
                   field ''transactionDate''
                     (map_option JsonStr (st_TransactionDate st)),
                   field ''phoneNumber'' (map_option JsonStr (st_PhoneNumber st)),
                   field ''balance'' (map_option JsonNum (st_Balance st)),
                   field ''merchantRequestId''
                     (map_option JsonStr (st_MerchantRequestID st))]"
  show ?thesis
    by (rule that [of "\<lambda>r. r \<lparr> payment_status := Completed,
          reference_number := Some (toString receipt), pay_notes := Some ?n \<rparr>"])
      (simp_all add: callback_write_def update_completed_def True rc)
next
  case False
  show ?thesis
    by (rule that [of "\<lambda>r. r \<lparr> payment_status := Failed, pay_notes := Some (error_note st) \<rparr>"])
      (simp_all add: callback_write_def update_status_notes_def False)
qed

lemma callback_write_twice:
  assumes "callback_write st p d = Inr d1" and "callback_write st q d1 = Inr d2"
  shows "filter (\<lambda>r. pay_id r = pay_id p) (payments d2) = filter (\<lambda>r. pay_id r = pay_id p) (payments d1)"
  using assms(1)
proof (rule callback_write_shape)
  fix f
  assume w: "\<And>q d'. callback_write st q d' = Inr (update_where_id (pay_id q) f d')"
    and keep: "\<And>r. pay_id (f r) = pay_id r" and idem: "\<And>r. f (f r) = f r"
  from assms w have d1: "d1 = update_where_id (pay_id p) f d"
    and d2: "d2 = update_where_id (pay_id q) f d1" by simp_all
  show ?thesis
  proof (cases "pay_id q = pay_id p")
    case True
    then have "d2 = d1"
      unfolding d2 d1 by (simp add: update_where_id_def comp_def keep idem)
    then show ?thesis by simp
  next
    case False
    then show ?thesis
      unfolding d2 by (simp add: payments_update_where_id filter_map_other keep)
  qed
qed

lemma callback_try_cases:
  "callback_try body d = Inr d' \<Longrightarrow>
     d' = d \<or> (\<exists>st ref p ps. processCallback body = Inr st \<and> st_CheckoutRequestID st = Some ref \<and>
        select_by_reference ref d = p # ps \<and> callback_write st p d = Inr d')"
  by (auto simp: callback_try_def split: sum.splits option.splits list.splits)

lemma callback_replay:
  assumes sel: "select_by_reference ref d = p # ps"
    and body: "cb_body req = Some cb" and ref: "cb_CheckoutRequestID cb = Some ref"
  shows "filter (\<lambda>r. pay_id r = pay_id p) (payments (fst (mpesa_callback req (fst (mpesa_callback req d)))))
       = filter (\<lambda>r. pay_id r = pay_id p) (payments (fst (mpesa_callback req d)))"
proof (cases "callback_try (cb_body req) d")
  case (Inl e)
  then show ?thesis by (simp add: mpesa_callback_def)
next
  case (Inr d1)
  then have d1: "fst (mpesa_callback req d) = d1" by (simp add: mpesa_callback_def)
  from Inr body obtain st where st: "processCallback (Some cb) = Inr st"
    by (auto simp: callback_try_def split: sum.splits)
  then have "st_CheckoutRequestID st = Some ref"
    using ref by (simp add: processCallback_CheckoutRequestID)
  with Inr body st sel have w1: "callback_write st p d = Inr d1"
    by (simp add: callback_try_def)
  show ?thesis
  proof (cases "callback_try (cb_body req) d1")
    case (Inl e)
    then show ?thesis unfolding d1 by (simp add: mpesa_callback_def)
  next
    case (Inr d2)
    then have d2: "fst (mpesa_callback req d1) = d2" by (simp add: mpesa_callback_def)
    from callback_try_cases [OF Inr] show ?thesis
    proof
      assume "d2 = d1"
      then show ?thesis unfolding d1 d2 by simp
    next
      assume "\<exists>st' ref' q qs. processCallback (cb_body req) = Inr st' \<and> st_CheckoutRequestID st' = Some ref' \<and>
        select_by_reference ref' d1 = q # qs \<and> callback_write st' q d1 = Inr d2"
      then obtain q where "callback_write st q d1 = Inr d2"
        using st body by auto
      from callback_write_twice [OF w1 this] show ?thesis unfolding d1 d2 .
    qed
  qed
qed

subsection \<open>What a write leaves in the row\<close>

lemma in_update_where_id:
  assumes "r \<in> set (payments (update_where_id i f d))" and "pay_id r = i"
    and keep: "\<And>x. pay_id (f x) = pay_id x"
  obtains x where "r = f x"
proof -
  from assms(1) obtain x where x: "x \<in> set (payments d)"
    and r: "r = (if pay_id x = i then f x else x)"
    unfolding payments_update_where_id by (auto simp only: set_map image_iff)
  show ?thesis
  proof (cases "pay_id x = i")
    case True
    with r have "r = f x" by simp
    then show ?thesis by (rule that)
  next
    case False
    with r assms(2) show ?thesis by simp
  qed
qed

lemma in_update_completed:
  assumes "r \<in> set (payments (update_completed ref n i d))" and "pay_id r = i"
  shows "payment_status r = Completed \<and> reference_number r = Some ref \<and> pay_notes r = Some n"
  using assms unfolding update_completed_def
  by (elim in_update_where_id) simp_all

lemma in_update_status_notes:
  assumes "r \<in> set (payments (update_status_notes s n i d))" and "pay_id r = i"
  shows "payment_status r = s \<and> pay_notes r = Some n"
  using assms unfolding update_status_notes_def
  by (elim in_update_where_id) simp_all



lemma callback_found:
  assumes sel: "select_by_reference ref d = p # ps"
    and st: "processCallback (cb_body req) = Inr st" and ref: "st_CheckoutRequestID st = Some ref"
  shows "callback_try (cb_body req) d = callback_write st p d"
  using assms by (simp add: callback_try_def)



lemma callback_write_success:
  "st_ResultCode st = ''0'' \<Longrightarrow> st_MpesaReceiptNumber st = Some receipt \<Longrightarrow>
   callback_write st p d =
     Inr (update_completed (toString receipt)
       (stringify
          [field ''mpesaReceiptNumber'' (Some (json_of_jvalue receipt)),
           field ''transactionDate'' (map_option JsonStr (st_TransactionDate st)),
           field ''phoneNumber'' (map_option JsonStr (st_PhoneNumber st)),
           field ''balance'' (map_option JsonNum (st_Balance st)),
           field ''merchantRequestId'' (map_option JsonStr (st_MerchantRequestID st))])
       (pay_id p) d)"
  by (simp add: callback_write_def)

lemma callback_write_failure:
  "st_ResultCode st \<noteq> ''0'' \<Longrightarrow>
   callback_write st p d = Inr (update_status_notes Failed (error_note st) (pay_id p) d)"
  by (simp add: callback_write_def)

lemma fst_mpesa_callback:
  "callback_try (cb_body req) d = Inr d' \<Longrightarrow> fst (mpesa_callback req d) = d'"
  by (simp add: mpesa_callback_def)


lemma callback_completes:
  assumes sel: "select_by_reference ref d = p # ps"
    and st: "processCallback (cb_body req) = Inr st" and ref: "st_CheckoutRequestID st = Some ref"
    and ok: "st_ResultCode st = ''0'' \<longrightarrow> st_MpesaReceiptNumber st \<noteq> None"
    and r: "r \<in> set (payments (fst (mpesa_callback req d)))" "pay_id r = pay_id p"
  shows "payment_status r = (if st_ResultCode st = ''0'' then Completed else Failed)"
proof (cases "st_ResultCode st = ''0''")
  case True
  with ok obtain receipt where rc: "st_MpesaReceiptNumber st = Some receipt" by auto
  have "callback_try (cb_body req) d = callback_write st p d"
    by (rule callback_found [OF sel st ref])
  from r(1) have "r \<in> set (payments (update_completed (toString receipt)
       (stringify
          [field ''mpesaReceiptNumber'' (Some (json_of_jvalue receipt)),
           field ''transactionDate'' (map_option JsonStr (st_TransactionDate st)),
           field ''phoneNumber'' (map_option JsonStr (st_PhoneNumber st)),
           field ''balance'' (map_option JsonNum (st_Balance st)),
           field ''merchantRequestId'' (map_option JsonStr (st_MerchantRequestID st))])
       (pay_id p) d))"
    by (simp only: fst_mpesa_callback [OF trans [OF callback_found [OF sel st ref]
          callback_write_success [OF True rc]]])
  from in_update_completed [OF this r(2)] True show ?thesis by simp
next
  case False
  from r(1) have "r \<in> set (payments (update_status_notes Failed (error_note st) (pay_id p) d))"
    by (simp only: fst_mpesa_callback [OF trans [OF callback_found [OF sel st ref]
          callback_write_failure [OF False]]])
  from in_update_status_notes [OF this r(2)] False show ?thesis by simp
qed







subsection \<open>The initiate handler\<close>






subsection \<open>Prefixes and digits\<close>

lemma strip_digits: "list_all is_digit (strip_non_digits s)"
  by (simp add: strip_non_digits_def list_all_iff)

lemma startsWith_Cons:
  "startsWith s (c # p) = (case s of [] \<Rightarrow> False | x # xs \<Rightarrow> x = c \<and> startsWith xs p)"
  by (cases s) (auto simp: startsWith_def)

lemma startsWith_Nil: "startsWith s []"
  by (simp add: startsWith_def)

subsection \<open>Rows with another id\<close>






lemma amount_boundary:
  "map_sum (\<lambda>failure. failure) created_amount
     (snd (mpesa_initiate example_env example_outside (example_initiate 500000) example_db))
     = Inr 500000 \<and>
   snd (mpesa_initiate example_env example_outside (example_initiate 500001) example_db)
     = Inl (BadRequest ''Amount must be between KES 1 and KES 500,000'')"
  by code_simp
section \<open>Replaying a result\<close>

text \<open>
  C1, as amended. Applying the same result a second time does not change the record it
  resolved. On the callback path the rows carrying the id of the payment found by the first
  call are the same after the second call as after the first (the second call either finds
  no row any more, because \<^verbatim>\<open>reference_number\<close> now holds the receipt, or rewrites the
  same values), and after a successful result with a receipt they are \<open>Completed\<close>. On the
  poll path a second call with the same gateway answer leaves the whole table as the first
  call left it. Nothing more is guaranteed: neither path looks at \<^verbatim>\<open>payment_status\<close>
  before it writes.
\<close>

theorem replay_same_result:
  "(select_by_reference ref d = p # ps \<and> cb_body req = Some cb \<and> cb_CheckoutRequestID cb = Some ref \<longrightarrow>
      filter (\<lambda>r. pay_id r = pay_id p)
          (payments (fst (mpesa_callback req (fst (mpesa_callback req d)))))
        = filter (\<lambda>r. pay_id r = pay_id p) (payments (fst (mpesa_callback req d)))
      \<and> (processCallback (cb_body req) = Inr st \<and> st_ResultCode st = ''0'' \<and>
           st_MpesaReceiptNumber st = Some receipt \<longrightarrow>
           (\<forall>r \<in> set (filter (\<lambda>r. pay_id r = pay_id p)
                 (payments (fst (mpesa_callback req (fst (mpesa_callback req d)))))).
              payment_status r = Completed)))
   \<and> fst (checkAndUpdatePaymentStatus env dr cid pid
            (fst (checkAndUpdatePaymentStatus env dr cid pid d)))
       = fst (checkAndUpdatePaymentStatus env dr cid pid d)"
proof (intro conjI impI)
  assume h: "select_by_reference ref d = p # ps \<and> cb_body req = Some cb \<and>
    cb_CheckoutRequestID cb = Some ref"
  then show same: "filter (\<lambda>r. pay_id r = pay_id p)
          (payments (fst (mpesa_callback req (fst (mpesa_callback req d)))))
        = filter (\<lambda>r. pay_id r = pay_id p) (payments (fst (mpesa_callback req d)))"
    by (blast intro: callback_replay)
  assume s: "processCallback (cb_body req) = Inr st \<and> st_ResultCode st = ''0'' \<and>
           st_MpesaReceiptNumber st = Some receipt"
  from h s have "processCallback (Some cb) = Inr st" by simp
  from processCallback_CheckoutRequestID [OF this] h have ref: "st_CheckoutRequestID st = Some ref"
    by simp
  show "\<forall>r \<in> set (filter (\<lambda>r. pay_id r = pay_id p)
                 (payments (fst (mpesa_callback req (fst (mpesa_callback req d)))))).
              payment_status r = Completed"
    unfolding same
  proof
    fix r
    assume "r \<in> set (filter (\<lambda>r. pay_id r = pay_id p) (payments (fst (mpesa_callback req d))))"
    then have r: "r \<in> set (payments (fst (mpesa_callback req d)))" "pay_id r = pay_id p"
      by simp_all
    from h s have "select_by_reference ref d = p # ps" "processCallback (cb_body req) = Inr st"
      "st_ResultCode st = ''0'' \<longrightarrow> st_MpesaReceiptNumber st \<noteq> None" by simp_all
    from callback_completes [OF this(1,2) ref this(3) r] s show "payment_status r = Completed"
      by simp
  qed
next
  show "fst (checkAndUpdatePaymentStatus env dr cid pid
            (fst (checkAndUpdatePaymentStatus env dr cid pid d)))
       = fst (checkAndUpdatePaymentStatus env dr cid pid d)"
    by (cases "checkPaymentStatus env dr cid")
       (simp_all add: checkAndUpdatePaymentStatus_def poll_write_twice)
qed

text \<open>The successful callback for the pending example payment, delivered twice.\<close>

theorem replay_same_result_witness:
  "select_by_reference ''ws_CO_1'' example_db = [example_payment] \<and>
   filter (\<lambda>r. pay_id r = 1)
       (payments (fst (mpesa_callback success_request (fst (mpesa_callback success_request example_db)))))
     = filter (\<lambda>r. pay_id r = 1) (payments (fst (mpesa_callback success_request example_db))) \<and>
   list_all (\<lambda>r. payment_status r = Completed)
     (filter (\<lambda>r. pay_id r = 1)
       (payments (fst (mpesa_callback success_request (fst (mpesa_callback success_request example_db))))))"
proof -
  have h: "select_by_reference ''ws_CO_1'' example_db = example_payment # [] \<and>
      cb_body success_request = Some success_callback \<and>
      cb_CheckoutRequestID success_callback = Some ''ws_CO_1''"
    by code_simp
  have s: "processCallback (cb_body success_request)
             = Inr (projr (processCallback (cb_body success_request))) \<and>
      st_ResultCode (projr (processCallback (cb_body success_request))) = ''0'' \<and>
      st_MpesaReceiptNumber (projr (processCallback (cb_body success_request))) = Some (JStr ''ABC123'')"
    by code_simp
  have i: "pay_id example_payment = 1" by code_simp
  let ?d2 = "fst (mpesa_callback success_request (fst (mpesa_callback success_request example_db)))"
  from replay_same_result [where ref = "''ws_CO_1''" and d = example_db and p = example_payment
      and ps = "[]" and req = success_request and cb = success_callback
      and st = "projr (processCallback (cb_body success_request))" and receipt = "JStr ''ABC123''"]
    h s
  have A: "filter (\<lambda>r. pay_id r = pay_id example_payment) (payments ?d2)
          = filter (\<lambda>r. pay_id r = pay_id example_payment)
              (payments (fst (mpesa_callback success_request example_db)))"
    and B: "\<forall>r \<in> set (filter (\<lambda>r. pay_id r = pay_id example_payment) (payments ?d2)).
              payment_status r = Completed"
    by blast+
  from B have C: "list_all (\<lambda>r. payment_status r = Completed)
      (filter (\<lambda>r. pay_id r = pay_id example_payment) (payments ?d2))"
    unfolding list_all_iff .
  from h have "select_by_reference ''ws_CO_1'' example_db = [example_payment]" ..
  with A C show ?thesis unfolding i by (intro conjI)
qed

text \<open>
  The claim as first stated fails: a payment that a callback has marked \<open>Failed\<close> is
  terminal, and a later successful callback for the same checkout request marks it
  \<open>Completed\<close>.
\<close>

theorem terminal_record_overwritten:
  "map payment_status (payments (fst (mpesa_callback failure_request example_db))) = [Failed] \<and>
   map payment_status
     (payments (fst (mpesa_callback success_request
        (fst (mpesa_callback failure_request example_db))))) = [Completed]"
  by code_simp

section \<open>Writes do not test the current status\<close>




section \<open>The reference number\<close>




section \<open>A failed initiation leaves no payment behind\<close>



section \<open>The acknowledgement\<close>

text \<open>
  C5. The callback handler answers \<^verbatim>\<open>{ResultCode: 0, ResultDesc: "Accepted"}\<close> for every
  request and every database state: when the payment was completed or failed, when no
  payment matched, and when decoding or a statement threw.
\<close>

theorem callback_always_accepted:
  "snd (mpesa_callback req d) = accepted"
  by (simp add: mpesa_callback_def accepted_def split: sum.split)

section \<open>Unknown checkout request\<close>

text \<open>
  C6. If no stored payment has the callback's \<^verbatim>\<open>CheckoutRequestID\<close> as its
  \<^verbatim>\<open>reference_number\<close>, the handler changes nothing in the database and answers with
  the acknowledgement; no error reaches the caller.
\<close>

theorem callback_unknown_reference:
  assumes "\<And>cb ref. cb_body req = Some cb \<Longrightarrow> cb_CheckoutRequestID cb = Some ref
             \<Longrightarrow> select_by_reference ref d = []"
  shows "mpesa_callback req d = (d, accepted)"
proof (cases "cb_body req")
  case None
  then show ?thesis
    by (simp add: mpesa_callback_def callback_try_def processCallback_def accepted_def)
next
  case (Some cb)
  show ?thesis
  proof (cases "processCallback (Some cb)")
    case (Inl e)
    then show ?thesis using Some
      by (simp add: mpesa_callback_def callback_try_def accepted_def)
  next
    case (Inr st)
    then have "st_CheckoutRequestID st = cb_CheckoutRequestID cb"
      by (rule processCallback_CheckoutRequestID)
    with assms [OF Some] Inr Some show ?thesis
      by (auto simp add: mpesa_callback_def callback_try_def accepted_def split: option.split)
  qed
qed

text \<open>A successful callback for a checkout request the example database has never seen.\<close>

theorem callback_unknown_reference_witness:
  "select_by_reference ''ws_CO_unknown'' example_db = [] \<and>
   mpesa_callback unknown_request example_db = (example_db, accepted)"
proof -
  have s: "select_by_reference ''ws_CO_unknown'' example_db = []" by code_simp
  have b: "cb_body unknown_request
      = Some (success_callback \<lparr> cb_CheckoutRequestID := Some ''ws_CO_unknown'' \<rparr>)"
    by (simp add: unknown_request_def)
  have "mpesa_callback unknown_request example_db = (example_db, accepted)"
  proof (rule callback_unknown_reference)
    fix cb ref
    assume "cb_body unknown_request = Some cb" and "cb_CheckoutRequestID cb = Some ref"
    with b have "ref = ''ws_CO_unknown''" by auto
    with s show "select_by_reference ref example_db = []" by simp
  qed
  with s show ?thesis by (intro conjI)
qed

section \<open>Amount bounds\<close>




section \<open>Phone normalisation\<close>

text \<open>
  C8. \<open>formatPhoneNumber\<close> maps each of 0712345678, 712345678 and 254712345678 to
  254712345678.
\<close>

theorem formatPhoneNumber_examples:
  "formatPhoneNumber ''0712345678'' = Inr ''254712345678'' \<and>
   formatPhoneNumber ''712345678'' = Inr ''254712345678'' \<and>
   formatPhoneNumber ''254712345678'' = Inr ''254712345678''"
  by (simp add: formatPhoneNumber_def strip_non_digits_def startsWith_def is_digit_def)

text \<open>
  C9, as amended. \<open>formatPhoneNumber\<close> fails exactly when the digits of the input do not
  begin with 0, 7, 1 or 254, or the number with the country code in front is not 12 digits
  long. Otherwise it returns that number: 12 digits beginning with 254.
\<close>

theorem formatPhoneNumber_characterised:
  "((\<exists>m. formatPhoneNumber raw = Inl (InvalidPhoneFormat m)) \<longleftrightarrow>
      \<not> ((startsWith (strip_non_digits raw) ''0'' \<or> startsWith (strip_non_digits raw) ''7'' \<or>
           startsWith (strip_non_digits raw) ''1'' \<or> startsWith (strip_non_digits raw) ''254'') \<and>
          length (spec_normalized raw) = 12)) \<and>
   (\<forall>r. formatPhoneNumber raw = Inr r \<longrightarrow>
      r = spec_normalized raw \<and> length r = 12 \<and> list_all is_digit r \<and> startsWith r ''254'')"
proof -
  define d where "d = strip_non_digits raw"
  have dig: "list_all is_digit d" by (simp add: d_def strip_digits)
  have d254: "list_all is_digit ''254''" by (simp add: is_digit_def)
  have drop: "list_all is_digit (drop 1 d)" using dig by (auto simp: list_all_iff dest: in_set_dropD)
  show ?thesis
    unfolding formatPhoneNumber_def spec_normalized_def d_def[symmetric] Let_def
    using dig d254 drop
    by (cases d) (auto simp: startsWith_Cons startsWith_Nil is_digit_def split: list.splits)
qed

text \<open>One input that is too long after normalisation, and one that is accepted.\<close>

theorem formatPhoneNumber_characterised_witness:
  "formatPhoneNumber ''+254 (0) 712-345-678'' = Inl (InvalidPhoneFormat
      ''Phone number must be 12 digits in 254XXXXXXXXX format'') \<and>
   length (spec_normalized ''+254 (0) 712-345-678'') = 13 \<and>
   formatPhoneNumber ''0712 345 678'' = Inr (spec_normalized ''0712 345 678'') \<and>
   spec_normalized ''0712 345 678'' = ''254712345678''"
proof -
  have a: "formatPhoneNumber ''0712 345 678'' = Inr ''254712345678''" 
    and b: "spec_normalized ''0712 345 678'' = ''254712345678''"
    and c: "length (spec_normalized ''+254 (0) 712-345-678'') = 13"
    and e: "formatPhoneNumber ''+254 (0) 712-345-678'' = Inl (InvalidPhoneFormat
      ''Phone number must be 12 digits in 254XXXXXXXXX format'')"
    by code_simp+
  from formatPhoneNumber_characterised [of "''0712 345 678''"] a
  have "formatPhoneNumber ''0712 345 678'' = Inr (spec_normalized ''0712 345 678'')" by simp
  with b c e show ?thesis by (intro conjI)
qed

text \<open>
  The claim as first stated fails: 812345678 contains only digits and, with the country
  code in front, is exactly 12 digits long, yet it is rejected because it begins with 8.
\<close>

theorem unlisted_prefix_rejected:
  "length (spec_normalized ''812345678'') = 12 \<and>
   list_all is_digit (spec_normalized ''812345678'') \<and>
   formatPhoneNumber ''812345678'' = Inl (InvalidPhoneFormat ''Invalid phone number format'')"
  by (simp add: spec_normalized_def formatPhoneNumber_def strip_non_digits_def startsWith_def is_digit_def)

section \<open>The callback route is open\<close>



end
